theory Spec2Isabelle
  imports Main
begin

section \<open>PluginCatalogue: scripts/utils/utils.py\<close>

text \<open>
  A shallow embedding of \<^verbatim>\<open>request_get\<close>, \<^verbatim>\<open>request_github_api\<close> and
  \<^verbatim>\<open>rewrite_markdown\<close>.

  Python \<^verbatim>\<open>str\<close> and \<^verbatim>\<open>bytes\<close> values are \<^typ>\<open>string\<close>; the operations used
  here (prefix tests, slicing off an ASCII prefix, concatenation, stripping or replacing
  ASCII characters) act the same way on a text and on its UTF-8 encoding. Python's
  unbounded \<^verbatim>\<open>int\<close> is \<^typ>\<open>int\<close>.

  The calls a function makes to the outside (\<^verbatim>\<open>requests.get\<close>, the \<^verbatim>\<open>log\<close> module,
  \<^verbatim>\<open>reporter.record_rate_limit\<close>, \<^verbatim>\<open>response.json()\<close>) are recorded, in program
  order, in a list of events returned beside the function's result. An exception is a
  value of type \<open>exn\<close> returned on the left of a sum.
\<close>

subsection \<open>Data\<close>

text \<open>A Python \<^verbatim>\<open>dict\<close> of strings in insertion order; \<open>None\<close> is Python's \<^verbatim>\<open>None\<close>.\<close>

type_synonym pydict = "(string \<times> string) list"

text \<open>
  The exceptions that can travel through the two HTTP functions. The first three stand for
  what \<^verbatim>\<open>requests.get\<close> may raise: \<^verbatim>\<open>requests.exceptions.ConnectionError\<close> (and its
  subclasses), \<^verbatim>\<open>ssl.SSLError\<close>, and anything else; their argument identifies the
  exception object. \<open>UnexpectedStatusCode\<close> is the \<^verbatim>\<open>Exception\<close> of line 119, whose
  message is formatted from the status code and the body.
\<close>

datatype exn =
    ConnectionError string
  | SSLError string
  | OtherException string
  | KeyError
  | AttributeError
  | JSONDecodeError
  | UnexpectedStatusCode int string

text \<open>The arguments of one \<^verbatim>\<open>requests.get\<close> call.\<close>

record request =
  req_url :: string
  req_params :: "pydict option"
  req_proxies :: "pydict option"
  req_headers :: "pydict option"

text \<open>
  What the code reads of a \<^verbatim>\<open>requests.Response\<close>. \<open>headers r k\<close> is the lookup
  \<^verbatim>\<open>response.headers[k]\<close> of the case-insensitive header dictionary, \<open>None\<close> where it
  raises \<^verbatim>\<open>KeyError\<close>.
\<close>

record response =
  status_code :: int
  headers :: "string \<rightharpoonup> string"
  content :: string

text \<open>One call of \<^verbatim>\<open>requests.get\<close> either returns a response or raises.\<close>

datatype attempt = Responds response | Fails exn

text \<open>
  The network: the outcome of the \<open>i\<close>-th \<^verbatim>\<open>requests.get\<close> call of one
  \<^verbatim>\<open>request_get\<close> invocation (counted from 0), given its arguments.
\<close>

type_synonym network = "nat \<Rightarrow> request \<Rightarrow> attempt"

text \<open>
  The ambient values the module reads: \<^verbatim>\<open>constants.DEBUG.REQUEST_GET\<close>,
  \<^verbatim>\<open>constants.DEBUG.SHOW_RATE_LIMIT\<close>, \<^verbatim>\<open>constants.PROXIES\<close> and the entry
  \<^verbatim>\<open>github_api_token\<close> of \<^verbatim>\<open>os.environ\<close> (\<open>None\<close> when it is not set). The module
  \<^verbatim>\<open>common.constants\<close> is not part of the sources at hand, so its values are parameters.
\<close>

record ambient =
  DEBUG_REQUEST_GET :: bool
  DEBUG_SHOW_RATE_LIMIT :: bool
  PROXIES :: "pydict option"
  github_api_token :: "string option"

text \<open>
  The outside calls, with the arguments that the source passes or formats. The modules
  \<^verbatim>\<open>common.log\<close> and \<^verbatim>\<open>common.report\<close> are not part of the sources at hand: a call
  of \<^verbatim>\<open>log.debug\<close>, \<^verbatim>\<open>log.info\<close>, \<^verbatim>\<open>log.error\<close> or
  \<^verbatim>\<open>reporter.record_rate_limit\<close> is recorded and taken to return.
\<close>

datatype event =
    HttpGet request
  | LogDebugRequesting int int string "pydict option"
  | LogErrorNoETag string "pydict option" int string
  | RecordRateLimit string string
  | LogDebugRateLimit string string
  | LogDebugETag string string string "pydict option"
  | ResponseJson
  | LogInfoRewritten string string string

fun is_get :: "event \<Rightarrow> bool" where
  "is_get (HttpGet _) = True"
| "is_get _ = False"

fun is_report :: "event \<Rightarrow> bool" where
  "is_report (RecordRateLimit _ _) = True"
| "is_report _ = False"

text \<open>The number of \<^verbatim>\<open>requests.get\<close> calls in a list of events.\<close>

definition gets :: "event list \<Rightarrow> nat" where
  "gets evs = length (filter is_get evs)"

subsection \<open>\<^verbatim>\<open>request_get\<close>\<close>

text \<open>
  The handler \<^verbatim>\<open>except (requests.exceptions.ConnectionError, ssl.SSLError)\<close>.
\<close>

fun retryable :: "exn \<Rightarrow> bool" where
  "retryable (ConnectionError _) = True"
| "retryable (SSLError _) = True"
| "retryable _ = False"

text \<open>
  The arguments of the call on line 84:
  \<^verbatim>\<open>requests.get(url, params=params, proxies=constants.PROXIES, headers=headers)\<close>.
\<close>

definition get_args :: "ambient \<Rightarrow> string \<Rightarrow> pydict option \<Rightarrow> pydict option \<Rightarrow> request" where
  "get_args amb url hdrs params =
     \<lparr>req_url = url, req_params = params, req_proxies = PROXIES amb, req_headers = hdrs\<rparr>"

text \<open>
  The loop \<^verbatim>\<open>for i in range(max(1, retries))\<close>, with \<open>i\<close> the loop variable, the
  second numeral the iterations that remain and \<open>err\<close> the local variable of that name.
  Leaving the loop with \<open>err = None\<close> falls off the end of the function, which returns
  \<^verbatim>\<open>None\<close>: the result \<open>Inr None\<close>. The parameter \<^verbatim>\<open>headers\<close> is \<open>hdrs\<close> here,
  the name \<open>headers\<close> being the field of a response.
\<close>

fun request_get_loop ::
  "ambient \<Rightarrow> network \<Rightarrow> string \<Rightarrow> pydict option \<Rightarrow> pydict option \<Rightarrow> int \<Rightarrow>
   nat \<Rightarrow> nat \<Rightarrow> exn option \<Rightarrow> (exn + response option) \<times> event list" where
  "request_get_loop amb net url hdrs params retries i 0 err =
     (case err of Some e \<Rightarrow> (Inl e, []) | None \<Rightarrow> (Inr None, []))"
| "request_get_loop amb net url hdrs params retries i (Suc k) err =
     (let req = get_args amb url hdrs params;
          pre = (if DEBUG_REQUEST_GET amb
                 then [LogDebugRequesting (int i + 1) retries url params] else [])
                @ [HttpGet req]
      in case net i req of
           Responds r \<Rightarrow> (Inr (Some r), pre)
         | Fails e \<Rightarrow>
             if retryable e
             then (let (res, evs) =
                         request_get_loop amb net url hdrs params retries (Suc i) k (Some e)
                   in (res, pre @ evs))
             else (Inl e, pre))"

text \<open>The keyword argument \<^verbatim>\<open>retries: int = 3\<close>: \<open>None\<close> when the caller leaves it out.\<close>

definition retries_arg :: "int option \<Rightarrow> int" where
  "retries_arg r = (case r of None \<Rightarrow> 3 | Some n \<Rightarrow> n)"

definition request_get ::
  "ambient \<Rightarrow> network \<Rightarrow> string \<Rightarrow> pydict option \<Rightarrow> pydict option \<Rightarrow> int option \<Rightarrow>
   (exn + response option) \<times> event list" where
  "request_get amb net url hdrs params retries =
     request_get_loop amb net url hdrs params (retries_arg retries)
       0 (nat (max 1 (retries_arg retries))) None"

subsection \<open>\<^verbatim>\<open>request_github_api\<close>\<close>

text \<open>Lines 95 to 99: the request headers.\<close>

definition github_headers :: "ambient \<Rightarrow> string \<Rightarrow> pydict" where
  "github_headers amb etag =
     [(''If-None-Match'', etag)] @
     (case github_api_token amb of
        Some tok \<Rightarrow> [(''Authorization'', ''token '' @ tok)]
      | None \<Rightarrow> [])"

text \<open>Lines 114 and 115.\<close>

definition strip_weak :: "string \<Rightarrow> string" where
  "strip_weak new_etag = (if take 2 new_etag = ''W/'' then drop 2 new_etag else new_etag)"

text \<open>
  \<open>json_loads\<close> is the decoder behind \<^verbatim>\<open>response.json()\<close>: \<open>Inl\<close> the exception it
  raises, \<open>Inr None\<close> the Python \<^verbatim>\<open>None\<close> it gives for the document \<^verbatim>\<open>null\<close>,
  \<open>Inr (Some j)\<close> any other value. The result pair is the returned tuple, its first
  component \<open>None\<close> for Python's \<^verbatim>\<open>None\<close>.
\<close>

definition request_github_api ::
  "ambient \<Rightarrow> network \<Rightarrow> (string \<Rightarrow> exn + 'j option) \<Rightarrow> string \<Rightarrow> pydict option \<Rightarrow>
   string \<Rightarrow> int option \<Rightarrow> (exn + 'j option \<times> string) \<times> event list" where
  "request_github_api amb net json_loads url params etag retries =
     (let (got, evs) = request_get amb net url (Some (github_headers amb etag)) params
                         (Some (retries_arg retries))
      in case got of
           Inl e \<Rightarrow> (Inl e, evs)
         | Inr None \<Rightarrow> (Inl AttributeError, evs)
         | Inr (Some response) \<Rightarrow>
            (case headers response ''ETag'' of
               None \<Rightarrow>
                 (Inl KeyError,
                  evs @ [LogErrorNoETag url params (status_code response) (content response)])
             | Some new_etag \<Rightarrow>
                (case headers response ''X-RateLimit-Remaining'' of
                   None \<Rightarrow> (Inl KeyError, evs)
                 | Some remaining \<Rightarrow>
                    (case headers response ''X-RateLimit-Limit'' of
                       None \<Rightarrow> (Inl KeyError, evs)
                     | Some limit \<Rightarrow>
                        (let evs1 = evs @ [RecordRateLimit remaining limit] @
                               (if DEBUG_SHOW_RATE_LIMIT amb
                                then [LogDebugRateLimit remaining limit,
                                      LogDebugETag etag new_etag url params]
                                else []);
                             new_etag' = strip_weak new_etag
                         in if status_code response = 304 then (Inr (None, new_etag'), evs1)
                            else if status_code response \<noteq> 200
                            then (Inl (UnexpectedStatusCode (status_code response)
                                         (content response)), evs1)
                            else (case json_loads (content response) of
                                    Inl e \<Rightarrow> (Inl e, evs1 @ [ResponseJson])
                                  | Inr j \<Rightarrow> (Inr (j, new_etag'), evs1 @ [ResponseJson])))))))"

subsection \<open>\<^verbatim>\<open>rewrite_markdown\<close>\<close>

text \<open>Line 140: \<^verbatim>\<open>str.rstrip('/')\<close> removes every trailing \<^verbatim>\<open>/\<close>.\<close>

definition rstrip_slash :: "string \<Rightarrow> string" where
  "rstrip_slash s = rev (dropWhile (\<lambda>c. c = CHR ''/'') (rev s))"

text \<open>
  Line 142: \<^verbatim>\<open>content.replace('\r\n', '\n')\<close>, every occurrence from left to right.
\<close>

fun replace_crlf :: "string \<Rightarrow> string" where
  "replace_crlf (c # d # s) =
     (if c = CHR 0x0D \<and> d = CHR 0x0A then CHR 0x0A # replace_crlf s
      else c # replace_crlf (d # s))"
| "replace_crlf s = s"

text \<open>
  The class \<^verbatim>\<open>\w\<close> under \<^verbatim>\<open>re.ASCII\<close>: the letters \<^verbatim>\<open>a-z\<close> and \<^verbatim>\<open>A-Z\<close>, the digits
  and the underscore.
\<close>

definition word_char :: "char \<Rightarrow> bool" where
  "word_char c =
     (c \<in> set ''abcdefghijklmnopqrstuvwxyzABCDEFGHIJKLMNOPQRSTUVWXYZ0123456789_'')"

text \<open>
  Line 143 and the test \<^verbatim>\<open>pattern.match(url)\<close> for the pattern \<^verbatim>\<open>^\w+://\<close>. The
  character after the word characters has to be a colon, which is no word character, so
  the only candidate for \<^verbatim>\<open>\w+\<close> is the longest run of word characters at the start
  (lemma \<open>pattern_match_iff\<close> below compares this with the meaning of the pattern).
\<close>

definition pattern_match :: "string \<Rightarrow> bool" where
  "pattern_match url =
     (takeWhile word_char url \<noteq> [] \<and> take 3 (dropWhile word_char url) = ''://'')"

text \<open>
  Lines 145 to 153. The inner function reads \<^verbatim>\<open>repos_url\<close> (already stripped) from the
  enclosing scope for its log message; here it is the first argument.
\<close>

definition rewrite_url :: "string \<Rightarrow> string \<Rightarrow> string \<Rightarrow> string \<times> event list" where
  "rewrite_url repos_url url rewrite_base =
     (if \<not> pattern_match url
      then (if url \<in> set ['''', ''.''] \<or> take 1 url = ''#''
            then (url, [])
            else (let new_url = rewrite_base @ ''/'' @ url
                  in (new_url, [LogInfoRewritten repos_url url new_url])))
      else (url, []))"

text \<open>
  The document tree as \<^verbatim>\<open>rewrite_children\<close> sees it: a node is an \<^verbatim>\<open>Image\<close> with its
  \<^verbatim>\<open>src\<close>, a \<^verbatim>\<open>Link\<close> with its \<^verbatim>\<open>target\<close>, or any other token; each has the list
  \<^verbatim>\<open>getattr(node, 'children', [])\<close>, and \<open>'a\<close> holds whatever else the token carries,
  which the function neither reads nor writes. What else a token carries may be tokens
  again, kept in an attribute other than \<^verbatim>\<open>children\<close> (the header row of a table in
  mistletoe); the function never looks there.
\<close>

datatype 'a node =
    Image string 'a "'a node list"
  | Link string 'a "'a node list"
  | Other 'a "'a node list"

text \<open>
  Lines 155 to 163. The function mutates the tree in place; the model returns the new tree.
  \<open>rewrite_each\<close> is the loop \<^verbatim>\<open>for child in children\<close>.
\<close>

fun rewrite_children :: "string \<Rightarrow> string \<Rightarrow> 'a node \<Rightarrow> 'a node \<times> event list"
  and rewrite_each :: "string \<Rightarrow> string \<Rightarrow> 'a node list \<Rightarrow> 'a node list \<times> event list" where
  "rewrite_children repos_url raw_url (Image src a children) =
     (let (src', ev) = rewrite_url repos_url src raw_url;
          (children', evs) = rewrite_each repos_url raw_url children
      in (Image src' a children', ev @ evs))"
| "rewrite_children repos_url raw_url (Link target a children) =
     (let (target', ev) = rewrite_url repos_url target repos_url;
          (children', evs) = rewrite_each repos_url raw_url children
      in (Link target' a children', ev @ evs))"
| "rewrite_children repos_url raw_url (Other a children) =
     (let (children', evs) = rewrite_each repos_url raw_url children
      in (Other a children', evs))"
| "rewrite_each repos_url raw_url [] = ([], [])"
| "rewrite_each repos_url raw_url (child # rest) =
     (let (child', ev) = rewrite_children repos_url raw_url child;
          (rest', evs) = rewrite_each repos_url raw_url rest
      in (child' # rest', ev @ evs))"

text \<open>
  Lines 136 to 169. \<^verbatim>\<open>mistletoe.Document\<close> and \<^verbatim>\<open>MarkdownRenderer.render\<close> belong to the
  third-party library mistletoe, not to this repository: they are the parameters \<open>parse\<close>
  and \<open>render\<close>, each returning a value or raising. The lock around the three calls
  serialises concurrent invocations and has no effect on a single one. The parameter
  \<^verbatim>\<open>content\<close> is \<open>content_md\<close> here, the name \<open>content\<close> being the field of a response.
\<close>

definition rewrite_markdown ::
  "(string \<Rightarrow> exn + 'a node) \<Rightarrow> ('a node \<Rightarrow> exn + string) \<Rightarrow> string \<Rightarrow> string \<Rightarrow> string \<Rightarrow>
   (exn + string) \<times> event list" where
  "rewrite_markdown parse render content_md repos_url raw_url =
     (let repos_url' = rstrip_slash repos_url;
          raw_url' = rstrip_slash raw_url;
          content' = replace_crlf content_md
      in case parse content' of
           Inl e \<Rightarrow> (Inl e, [])
         | Inr doc \<Rightarrow>
             (let (doc', evs) = rewrite_children repos_url' raw_url' doc
              in (render doc', evs)))"

subsection \<open>The rewriting rule as the specification words it\<close>

text \<open>
  The definitions of this subsection follow the specification, not the code; the theorems
  on \<^verbatim>\<open>rewrite_markdown\<close> compare the two. A URL is scheme-qualified when it matches
  \<^verbatim>\<open>^\w+://\<close>: it starts with one or more word characters followed by \<^verbatim>\<open>://\<close>.
\<close>

datatype UrlClass = SchemeQualified | FragmentOnly | EmptyOrCurrent | RelativePath

definition scheme_qualified :: "string \<Rightarrow> bool" where
  "scheme_qualified url =
     (\<exists>w rest. w \<noteq> [] \<and> list_all word_char w \<and> url = w @ ''://'' @ rest)"

definition classify :: "string \<Rightarrow> UrlClass" where
  "classify url =
     (if scheme_qualified url then SchemeQualified
      else if url = '''' \<or> url = ''.'' then EmptyOrCurrent
      else if \<exists>rest. url = ''#'' @ rest then FragmentOnly
      else RelativePath)"

definition spec_rewrite_url :: "string \<Rightarrow> string \<Rightarrow> string" where
  "spec_rewrite_url base url =
     (case classify url of
        SchemeQualified \<Rightarrow> url
      | EmptyOrCurrent \<Rightarrow> url
      | FragmentOnly \<Rightarrow> url
      | RelativePath \<Rightarrow> base @ ''/'' @ url)"

text \<open>
  Every image node gets its source rewritten against \<open>rawBase\<close>, every link node its target
  against \<open>repoBase\<close>, at any depth; nothing else changes.
\<close>

fun spec_rewrite :: "string \<Rightarrow> string \<Rightarrow> 'a node \<Rightarrow> 'a node" where
  "spec_rewrite repoBase rawBase (Image src a children) =
     Image (spec_rewrite_url rawBase src) a (map (spec_rewrite repoBase rawBase) children)"
| "spec_rewrite repoBase rawBase (Link target a children) =
     Link (spec_rewrite_url repoBase target) a (map (spec_rewrite repoBase rawBase) children)"
| "spec_rewrite repoBase rawBase (Other a children) =
     Other a (map (spec_rewrite repoBase rawBase) children)"

section \<open>Properties of \<^verbatim>\<open>request_get\<close>\<close>

lemma gets_simps [simp]:
  "gets [] = 0"
  "gets (xs @ ys) = gets xs + gets ys"
  "gets (HttpGet r # xs) = Suc (gets xs)"
  "gets (LogDebugRequesting a b c d # xs) = gets xs"
  by (simp_all add: gets_def)

lemma gets_debug [simp]:
  "gets (if b then [LogDebugRequesting a c d e] else []) = 0"
  by simp

lemma request_get_loop_spec:
  assumes "request_get_loop amb net url hdrs params retries i k err = (res, evs)"
  shows "gets evs \<le> k \<and> (0 < k \<longrightarrow> 1 \<le> gets evs) \<and>
         (k = 0 \<longrightarrow> res = (case err of Some e \<Rightarrow> Inl e | None \<Rightarrow> Inr None)) \<and>
         (\<forall>j. Suc j < gets evs \<longrightarrow>
              (\<exists>e. net (i + j) (get_args amb url hdrs params) = Fails e \<and> retryable e)) \<and>
         (0 < k \<longrightarrow>
            (case net (i + gets evs - 1) (get_args amb url hdrs params) of
               Responds r \<Rightarrow> res = Inr (Some r)
             | Fails e \<Rightarrow> res = Inl e \<and> (retryable e \<longrightarrow> gets evs = k)))"
  using assms
proof (induction k arbitrary: i err res evs)
  case 0
  then show ?case by (auto split: option.splits)
next
  case (Suc k)
  let ?req = "get_args amb url hdrs params"
  show ?case
  proof (cases "net i ?req")
    case (Responds r)
    with Suc.prems show ?thesis by (auto simp: Let_def)
  next
    case (Fails e)
    show ?thesis
    proof (cases "retryable e")
      case False
      with Fails Suc.prems show ?thesis by (auto simp: Let_def)
    next
      case True
      obtain res' evs' where rec:
        "request_get_loop amb net url hdrs params retries (Suc i) k (Some e) = (res', evs')"
        by (cases "request_get_loop amb net url hdrs params retries (Suc i) k (Some e)")
      note IH = Suc.IH [OF rec]
      from Suc.prems Fails True rec have res: "res = res'" and
        evs: "gets evs = Suc (gets evs')"
        by (auto simp: Let_def)
      show ?thesis
      proof (cases k)
        case 0
        with IH have "gets evs' = 0" "res' = Inl e" by auto
        with res evs Fails True 0 show ?thesis by auto
      next
        case (Suc k')
        with IH have pos: "1 \<le> gets evs'" by simp
        have a: "\<forall>j. Suc j < gets evs \<longrightarrow>
              (\<exists>e. net (i + j) ?req = Fails e \<and> retryable e)"
        proof (intro allI impI)
          fix j assume j: "Suc j < gets evs"
          show "\<exists>e. net (i + j) ?req = Fails e \<and> retryable e"
          proof (cases j)
            case 0
            with Fails True show ?thesis by simp
          next
            case (Suc j')
            with j evs have "Suc j' < gets evs'" by simp
            with IH Suc show ?thesis by auto
          qed
        qed
        from pos evs have idx: "i + gets evs - 1 = Suc i + gets evs' - 1" by simp
        from IH Suc idx res evs a show ?thesis by (auto split: attempt.splits)
      qed
    qed
  qed
qed


lemma request_get_spec:
  assumes "request_get amb net url hdrs params retries = (res, evs)"
  shows "1 \<le> gets evs \<and> gets evs \<le> nat (max 1 (retries_arg retries)) \<and>
         (\<forall>j. Suc j < gets evs \<longrightarrow>
              (\<exists>e. net j (get_args amb url hdrs params) = Fails e \<and> retryable e)) \<and>
         (case net (gets evs - 1) (get_args amb url hdrs params) of
            Responds r \<Rightarrow> res = Inr (Some r)
          | Fails e \<Rightarrow> res = Inl e \<and> (retryable e \<longrightarrow> gets evs = nat (max 1 (retries_arg retries))))"
proof -
  have pos: "0 < nat (max 1 (retries_arg retries))" by simp
  from request_get_loop_spec [OF assms [unfolded request_get_def]] pos
  show ?thesis by simp
qed

lemma max_attempts_cases:
  "nat (max 1 (retries_arg retries)) =
     (case retries of None \<Rightarrow> 3 | Some r \<Rightarrow> if r < 1 then 1 else nat r)"
  by (auto simp: retries_arg_def max_def split: option.splits)

text \<open>
  C4. Every call of \<^verbatim>\<open>request_get\<close> makes at least one \<^verbatim>\<open>requests.get\<close> call and at
  most \<open>max 1 retries\<close> of them, where a missing \<open>retries\<close> counts as 3 and a value below
  1 as 1. Every attempt but the last one made failed with a connection or SSL error, so
  nothing else leads to a further attempt. The result comes from the last attempt made: its
  response is returned; its exception is raised as it is, not wrapped; and when that
  exception is a connection or SSL error, the attempts are used up.
\<close>

theorem request_get_attempts:
  assumes "request_get amb net url hdrs params retries = (res, evs)"
  shows "1 \<le> gets evs \<and>
         gets evs \<le> (case retries of None \<Rightarrow> 3 | Some r \<Rightarrow> if r < 1 then 1 else nat r) \<and>
         (\<forall>j. Suc j < gets evs \<longrightarrow>
              (\<exists>e. net j (get_args amb url hdrs params) = Fails e \<and> retryable e)) \<and>
         (case net (gets evs - 1) (get_args amb url hdrs params) of
            Responds r \<Rightarrow> res = Inr (Some r)
          | Fails e \<Rightarrow>
              res = Inl e \<and>
              (retryable e \<longrightarrow>
                 gets evs = (case retries of None \<Rightarrow> 3
                             | Some r \<Rightarrow> if r < 1 then 1 else nat r)))"
  using request_get_spec [OF assms] unfolding max_attempts_cases .

text \<open>
  The transport fails with a connection error on the first two attempts and answers the
  third; with \<open>retries = 3\<close> the response is returned after three \<^verbatim>\<open>requests.get\<close> calls.
\<close>

theorem request_get_attempts_witness:
  "request_get
     \<lparr>DEBUG_REQUEST_GET = False, DEBUG_SHOW_RATE_LIMIT = False, PROXIES = None,
      github_api_token = None\<rparr>
     (\<lambda>i req. if i < 2 then Fails (ConnectionError ''refused'')
               else Responds \<lparr>status_code = 200, headers = Map.empty, content = ''{}''\<rparr>)
     ''https://api.github.com/x'' None None (Some 3)
   = (Inr (Some \<lparr>status_code = 200, headers = Map.empty, content = ''{}''\<rparr>),
      replicate 3 (HttpGet \<lparr>req_url = ''https://api.github.com/x'', req_params = None,
                              req_proxies = None, req_headers = None\<rparr>))
   \<and> gets (replicate 3 (HttpGet \<lparr>req_url = ''https://api.github.com/x'', req_params = None,
                              req_proxies = None, req_headers = None\<rparr>)) = 3"
proof -
  let ?amb = "\<lparr>DEBUG_REQUEST_GET = False, DEBUG_SHOW_RATE_LIMIT = False, PROXIES = None,
      github_api_token = None\<rparr>"
  let ?r = "\<lparr>status_code = 200, headers = Map.empty, content = ''{}''\<rparr>"
  let ?net = "\<lambda>i (req::request). if i < (2::nat) then Fails (ConnectionError ''refused'')
               else Responds ?r"
  let ?evs = "replicate 3 (HttpGet \<lparr>req_url = ''https://api.github.com/x'', req_params = None,
                              req_proxies = None, req_headers = None\<rparr>)"
  have run: "request_get ?amb ?net ''https://api.github.com/x'' None None (Some 3)
             = (Inr (Some ?r), ?evs)"
    by (simp add: request_get_def retries_arg_def get_args_def eval_nat_numeral)
  from request_get_attempts [OF run] have "1 \<le> gets ?evs \<and> gets ?evs \<le> 3" by simp
  moreover have "gets ?evs = 3" by (simp add: eval_nat_numeral)
  ultimately show ?thesis using run by simp
qed

text \<open>
  C9. For every value of \<open>retries\<close>, zero and negative ones too, \<^verbatim>\<open>request_get\<close> makes at
  least one attempt and returns a response or raises: it never falls off its end and
  returns \<^verbatim>\<open>None\<close>.
\<close>

theorem request_get_never_returns_None:
  "fst (request_get amb net url hdrs params retries) \<noteq> Inr None \<and>
   1 \<le> gets (snd (request_get amb net url hdrs params retries))"
proof -
  obtain res evs where run: "request_get amb net url hdrs params retries = (res, evs)"
    by (cases "request_get amb net url hdrs params retries")
  from request_get_spec [OF run] show ?thesis
    unfolding run by (auto split: attempt.splits)
qed

section \<open>Properties of \<^verbatim>\<open>request_github_api\<close>\<close>

lemma gets_more_simps [simp]:
  "gets (LogErrorNoETag a b c d # xs) = gets xs"
  "gets (RecordRateLimit r l # xs) = gets xs"
  "gets (LogDebugRateLimit r l # xs) = gets xs"
  "gets (LogDebugETag e f g h # xs) = gets xs"
  "gets (ResponseJson # xs) = gets xs"
  by (simp_all add: gets_def)

lemma request_get_loop_events:
  "request_get_loop amb net url hdrs params retries i k err = (res, evs) \<Longrightarrow>
   filter is_report evs = [] \<and> ResponseJson \<notin> set evs \<and>
   filter is_get evs = replicate (gets evs) (HttpGet (get_args amb url hdrs params))"
proof (induction k arbitrary: i err res evs)
  case 0
  then show ?case by (auto split: option.splits)
next
  case (Suc k)
  show ?case
  proof (cases "net i (get_args amb url hdrs params)")
    case (Responds r)
    with Suc.prems show ?thesis by (auto simp: Let_def)
  next
    case (Fails e)
    show ?thesis
    proof (cases "retryable e")
      case False
      with Fails Suc.prems show ?thesis by (auto simp: Let_def)
    next
      case True
      obtain res' evs' where rec:
        "request_get_loop amb net url hdrs params retries (Suc i) k (Some e) = (res', evs')"
        by (cases "request_get_loop amb net url hdrs params retries (Suc i) k (Some e)")
      from Suc.IH [OF rec] Suc.prems Fails True rec show ?thesis
        by (auto simp: Let_def)
    qed
  qed
qed

lemma request_get_events:
  "request_get amb net url hdrs params retries = (res, evs) \<Longrightarrow>
   filter is_report evs = [] \<and> ResponseJson \<notin> set evs \<and>
   filter is_get evs = replicate (gets evs) (HttpGet (get_args amb url hdrs params))"
  unfolding request_get_def by (rule request_get_loop_events)

text \<open>What \<^verbatim>\<open>request_github_api\<close> does once \<^verbatim>\<open>request_get\<close> has returned a response.\<close>

lemma api_no_etag:
  assumes "request_get amb net url (Some (github_headers amb etag)) params
             (Some (retries_arg retries)) = (Inr (Some r), evs)"
    and "headers r ''ETag'' = None"
  shows "request_github_api amb net json_loads url params etag retries =
           (Inl KeyError, evs @ [LogErrorNoETag url params (status_code r) (content r)])"
  using assms by (simp add: request_github_api_def)

lemma api_no_rate_limit:
  assumes "request_get amb net url (Some (github_headers amb etag)) params
             (Some (retries_arg retries)) = (Inr (Some r), evs)"
    and "headers r ''ETag'' = Some new_etag"
    and "headers r ''X-RateLimit-Remaining'' = None \<or> headers r ''X-RateLimit-Limit'' = None"
  shows "request_github_api amb net json_loads url params etag retries = (Inl KeyError, evs)"
  using assms by (auto simp: request_github_api_def split: option.splits)

lemma api_with_headers:
  assumes "request_get amb net url (Some (github_headers amb etag)) params
             (Some (retries_arg retries)) = (Inr (Some r), evs)"
    and "headers r ''ETag'' = Some new_etag"
    and "headers r ''X-RateLimit-Remaining'' = Some remaining"
    and "headers r ''X-RateLimit-Limit'' = Some limit"
  shows "request_github_api amb net json_loads url params etag retries =
     (let evs1 = evs @ RecordRateLimit remaining limit #
                   (if DEBUG_SHOW_RATE_LIMIT amb
                    then [LogDebugRateLimit remaining limit, LogDebugETag etag new_etag url params]
                    else [])
      in if status_code r = 304 then (Inr (None, strip_weak new_etag), evs1)
         else if status_code r \<noteq> 200
         then (Inl (UnexpectedStatusCode (status_code r) (content r)), evs1)
         else (case json_loads (content r) of
                 Inl e \<Rightarrow> (Inl e, evs1 @ [ResponseJson])
               | Inr j \<Rightarrow> (Inr (j, strip_weak new_etag), evs1 @ [ResponseJson])))"
  using assms by (simp add: request_github_api_def Let_def)


text \<open>
  C1 (amended). When \<^verbatim>\<open>request_get\<close> has returned a response that carries the headers
  \<^verbatim>\<open>ETag\<close>, \<^verbatim>\<open>X-RateLimit-Remaining\<close> and \<^verbatim>\<open>X-RateLimit-Limit\<close>, the status code
  decides the result: 304 returns \<^verbatim>\<open>(None, new_etag)\<close> and \<^verbatim>\<open>response.json()\<close> is never
  called; 200 returns \<^verbatim>\<open>(response.json(), new_etag)\<close>, or raises what the decoder raises
  when the body is not JSON; any other status raises the exception that carries the status
  code and the body. In each case no \<^verbatim>\<open>requests.get\<close> call follows the response.
\<close>

theorem request_github_api_status:
  assumes got: "request_get amb net url (Some (github_headers amb etag)) params
                  (Some (retries_arg retries)) = (Inr (Some r), evs)"
    and etag: "headers r ''ETag'' = Some new_etag"
    and remaining: "headers r ''X-RateLimit-Remaining'' = Some remaining"
    and limit: "headers r ''X-RateLimit-Limit'' = Some limit"
    and out: "request_github_api amb net json_loads url params etag retries = (res, evs')"
  shows "(status_code r = 304 \<longrightarrow>
            res = Inr (None, strip_weak new_etag) \<and> ResponseJson \<notin> set evs') \<and>
         (status_code r = 200 \<longrightarrow>
            res = (case json_loads (content r) of
                     Inl e \<Rightarrow> Inl e
                   | Inr j \<Rightarrow> Inr (j, strip_weak new_etag))) \<and>
         (status_code r \<noteq> 304 \<and> status_code r \<noteq> 200 \<longrightarrow>
            res = Inl (UnexpectedStatusCode (status_code r) (content r))) \<and>
         gets evs' = gets evs"
proof -
  from request_get_events [OF got] have nj: "ResponseJson \<notin> set evs" by simp
  from api_with_headers [OF got etag remaining limit, of json_loads] out nj
  show ?thesis
    by (auto simp: Let_def split: if_splits sum.splits)
qed

text \<open>A 304 response with the three headers and the ETag \<^verbatim>\<open>W/abc\<close>.\<close>

theorem request_github_api_status_witness:
  "request_github_api
     \<lparr>DEBUG_REQUEST_GET = False, DEBUG_SHOW_RATE_LIMIT = False, PROXIES = None,
      github_api_token = None\<rparr>
     (\<lambda>i req. Responds \<lparr>status_code = 304,
        headers = [''ETag'' \<mapsto> ''W/abc'', ''X-RateLimit-Remaining'' \<mapsto> ''59'',
                   ''X-RateLimit-Limit'' \<mapsto> ''60''],
        content = []\<rparr>)
     (\<lambda>body. Inl JSONDecodeError :: exn + string option)
     ''https://api.github.com/x'' None ''abc'' None
   = (Inr (None, ''abc''),
      [HttpGet \<lparr>req_url = ''https://api.github.com/x'', req_params = None, req_proxies = None,
                req_headers = Some [(''If-None-Match'', ''abc'')]\<rparr>,
       RecordRateLimit ''59'' ''60''])"
proof -
  let ?amb = "\<lparr>DEBUG_REQUEST_GET = False, DEBUG_SHOW_RATE_LIMIT = False, PROXIES = None,
      github_api_token = None\<rparr>"
  let ?r = "\<lparr>status_code = 304,
        headers = [''ETag'' \<mapsto> ''W/abc'', ''X-RateLimit-Remaining'' \<mapsto> ''59'',
                   ''X-RateLimit-Limit'' \<mapsto> ''60''],
        content = []\<rparr>"
  let ?net = "\<lambda>(i::nat) (req::request). Responds ?r"
  let ?loads = "\<lambda>body::string. Inl JSONDecodeError :: exn + string option"
  let ?q = "\<lparr>req_url = ''https://api.github.com/x'', req_params = None, req_proxies = None,
                req_headers = Some [(''If-None-Match'', ''abc'')]\<rparr>"
  have got: "request_get ?amb ?net ''https://api.github.com/x''
               (Some (github_headers ?amb ''abc'')) None (Some (retries_arg None))
             = (Inr (Some ?r), [HttpGet ?q])"
    by (simp add: request_get_def retries_arg_def get_args_def github_headers_def
        eval_nat_numeral)
  have out: "request_github_api ?amb ?net ?loads ''https://api.github.com/x'' None ''abc'' None
             = (Inr (None, ''abc''), [HttpGet ?q, RecordRateLimit ''59'' ''60''])"
    by (simp add: request_github_api_def got strip_weak_def)
  have "Inr (None, ''abc'') = Inr (None, strip_weak ''W/abc'') \<and>
        gets [HttpGet ?q, RecordRateLimit ''59'' ''60''] = gets [HttpGet ?q]"
    using request_github_api_status [OF got _ _ _ out, of "''W/abc''" "''59''" "''60''"]
    by simp
  with out show ?thesis by simp
qed

text \<open>
  C1 as stated fails: a 304 response that carries an ETag header and no rate-limit header
  makes the call raise \<^verbatim>\<open>KeyError\<close> (line 106) instead of returning \<^verbatim>\<open>(None, etag)\<close>.
\<close>

theorem request_github_api_status_counterexample:
  "fst (request_github_api
     \<lparr>DEBUG_REQUEST_GET = False, DEBUG_SHOW_RATE_LIMIT = False, PROXIES = None,
      github_api_token = None\<rparr>
     (\<lambda>i req. Responds \<lparr>status_code = 304, headers = [''ETag'' \<mapsto> ''abc''],
                          content = []\<rparr>)
     (\<lambda>body. Inl JSONDecodeError :: exn + string option)
     ''https://api.github.com/x'' None ''abc'' None)
   = Inl KeyError"
  by (simp add: request_github_api_def request_get_def retries_arg_def get_args_def
      github_headers_def eval_nat_numeral)


text \<open>
  The \<^verbatim>\<open>requests.get\<close> calls of \<^verbatim>\<open>request_github_api\<close> are those of its
  \<^verbatim>\<open>request_get\<close> call, whatever the outcome; and when it returns, a response was received
  and the returned etag is its stripped ETag header.
\<close>

lemma api_gets:
  "filter is_get (snd (request_github_api amb net json_loads url params etag retries)) =
   filter is_get (snd (request_get amb net url (Some (github_headers amb etag)) params
                         (Some (retries_arg retries))))"
proof -
  obtain got evs where run:
    "request_get amb net url (Some (github_headers amb etag)) params
       (Some (retries_arg retries)) = (got, evs)"
    by (cases "request_get amb net url (Some (github_headers amb etag)) params
                 (Some (retries_arg retries))")
  show ?thesis
    unfolding request_github_api_def run
    by (simp add: Let_def split: sum.splits option.splits)
qed

lemma api_returns:
  assumes "fst (request_github_api amb net json_loads url params etag retries) =
             Inr (payload, returned_etag)"
  shows "\<exists>r evs h. request_get amb net url (Some (github_headers amb etag)) params
                       (Some (retries_arg retries)) = (Inr (Some r), evs) \<and>
                    headers r ''ETag'' = Some h \<and> returned_etag = strip_weak h"
proof -
  obtain got evs where run:
    "request_get amb net url (Some (github_headers amb etag)) params
       (Some (retries_arg retries)) = (got, evs)"
    by (cases "request_get amb net url (Some (github_headers amb etag)) params
                 (Some (retries_arg retries))")
  from assms show ?thesis
    unfolding request_github_api_def run
    by (auto simp: Let_def split: sum.splits option.splits if_splits)
qed

text \<open>
  C2 (amended). Only the ETag taken from the response is normalised: when the call returns,
  the returned etag is the response's ETag header without its first two characters when
  these are \<^verbatim>\<open>W/\<close>, and the header unchanged otherwise. The etag the caller supplies is
  sent as it is: every \<^verbatim>\<open>requests.get\<close> call of the invocation, whether the invocation
  returns or raises, carries it unchanged as the value of \<^verbatim>\<open>If-None-Match\<close>.
\<close>

theorem request_github_api_etag:
  "map_of (github_headers amb etag) ''If-None-Match'' = Some etag \<and>
   filter is_get (snd (request_github_api amb net json_loads url params etag retries)) =
     replicate (gets (snd (request_github_api amb net json_loads url params etag retries)))
       (HttpGet (get_args amb url (Some (github_headers amb etag)) params)) \<and>
   (\<forall>payload returned_etag.
      fst (request_github_api amb net json_loads url params etag retries) =
        Inr (payload, returned_etag) \<longrightarrow>
      (\<exists>r evs h.
          request_get amb net url (Some (github_headers amb etag)) params
            (Some (retries_arg retries)) = (Inr (Some r), evs) \<and>
          headers r ''ETag'' = Some h \<and>
          (\<forall>t. h = ''W/'' @ t \<longrightarrow> returned_etag = t) \<and>
          (take 2 h \<noteq> ''W/'' \<longrightarrow> returned_etag = h)))"
proof -
  let ?api = "request_github_api amb net json_loads url params etag retries"
  let ?get = "request_get amb net url (Some (github_headers amb etag)) params
                (Some (retries_arg retries))"
  have "map_of (github_headers amb etag) ''If-None-Match'' = Some etag"
    by (simp add: github_headers_def)
  moreover have "filter is_get (snd ?api) =
      replicate (gets (snd ?api))
        (HttpGet (get_args amb url (Some (github_headers amb etag)) params))"
  proof -
    have same: "filter is_get (snd ?api) = filter is_get (snd ?get)" by (rule api_gets)
    then have "gets (snd ?api) = gets (snd ?get)" by (simp add: gets_def)
    with same request_get_events [of amb net url "Some (github_headers amb etag)" params
        "Some (retries_arg retries)" "fst ?get" "snd ?get"]
    show ?thesis by simp
  qed
  moreover have "\<exists>r evs h. ?get = (Inr (Some r), evs) \<and> headers r ''ETag'' = Some h \<and>
          (\<forall>t. h = ''W/'' @ t \<longrightarrow> returned_etag = t) \<and>
          (take 2 h \<noteq> ''W/'' \<longrightarrow> returned_etag = h)"
    if "fst ?api = Inr (payload, returned_etag)" for payload returned_etag
  proof -
    from api_returns [OF that] obtain r evs h where
      "?get = (Inr (Some r), evs)" "headers r ''ETag'' = Some h" "returned_etag = strip_weak h"
      by blast
    moreover from this(3) have "(\<forall>t. h = ''W/'' @ t \<longrightarrow> returned_etag = t) \<and>
          (take 2 h \<noteq> ''W/'' \<longrightarrow> returned_etag = h)"
      by (auto simp: strip_weak_def)
    ultimately show ?thesis by blast
  qed
  ultimately show ?thesis by blast
qed

text \<open>
  A call that returns (a 200 response whose ETag is \<^verbatim>\<open>W/def\<close>, the caller's etag
  \<^verbatim>\<open>abc\<close>), and a call that raises after three refused connections, the caller's etag
  \<^verbatim>\<open>W/abc\<close>.
\<close>

theorem request_github_api_etag_witness:
  "request_github_api
     \<lparr>DEBUG_REQUEST_GET = False, DEBUG_SHOW_RATE_LIMIT = False, PROXIES = None,
      github_api_token = Some ''t0''\<rparr>
     (\<lambda>i req. Responds \<lparr>status_code = 200,
        headers = [''ETag'' \<mapsto> ''W/def'', ''X-RateLimit-Remaining'' \<mapsto> ''58'',
                   ''X-RateLimit-Limit'' \<mapsto> ''60''],
        content = ''[]''\<rparr>)
     (\<lambda>body. Inr (Some body))
     ''https://api.github.com/x'' None ''abc'' None
   = (Inr (Some ''[]'', ''def''),
      [HttpGet \<lparr>req_url = ''https://api.github.com/x'', req_params = None, req_proxies = None,
                req_headers = Some [(''If-None-Match'', ''abc''),
                                    (''Authorization'', ''token t0'')]\<rparr>,
       RecordRateLimit ''58'' ''60'', ResponseJson]) \<and>
   request_github_api
     \<lparr>DEBUG_REQUEST_GET = False, DEBUG_SHOW_RATE_LIMIT = False, PROXIES = None,
      github_api_token = None\<rparr>
     (\<lambda>i req. Fails (ConnectionError ''refused''))
     (\<lambda>body. Inr (Some body))
     ''https://api.github.com/x'' None ''W/abc'' None
   = (Inl (ConnectionError ''refused''),
      replicate 3
        (HttpGet \<lparr>req_url = ''https://api.github.com/x'', req_params = None,
                  req_proxies = None,
                  req_headers = Some [(''If-None-Match'', ''W/abc'')]\<rparr>))"
proof -
  let ?amb = "\<lparr>DEBUG_REQUEST_GET = False, DEBUG_SHOW_RATE_LIMIT = False, PROXIES = None,
      github_api_token = Some ''t0''\<rparr>"
  let ?amb' = "\<lparr>DEBUG_REQUEST_GET = False, DEBUG_SHOW_RATE_LIMIT = False, PROXIES = None,
      github_api_token = None\<rparr>"
  let ?hs = "[''ETag'' \<mapsto> ''W/def'', ''X-RateLimit-Remaining'' \<mapsto> ''58'',
                   ''X-RateLimit-Limit'' \<mapsto> ''60'']"
  let ?r = "\<lparr>status_code = 200, headers = ?hs, content = ''[]''\<rparr>"
  let ?net = "\<lambda>(i::nat) (req::request). Responds ?r"
  let ?down = "\<lambda>(i::nat) (req::request). Fails (ConnectionError ''refused'')"
  let ?loads = "\<lambda>body::string. Inr (Some body) :: exn + string option"
  let ?q = "\<lparr>req_url = ''https://api.github.com/x'', req_params = None, req_proxies = None,
                req_headers = Some [(''If-None-Match'', ''abc''),
                                    (''Authorization'', ''token t0'')]\<rparr>"
  let ?q' = "\<lparr>req_url = ''https://api.github.com/x'', req_params = None,
                 req_proxies = None, req_headers = Some [(''If-None-Match'', ''W/abc'')]\<rparr>"
  let ?ok = "request_github_api ?amb ?net ?loads ''https://api.github.com/x'' None ''abc'' None"
  let ?ko = "request_github_api ?amb' ?down ?loads ''https://api.github.com/x'' None
               ''W/abc'' None"
  have ok: "?ok = (Inr (Some ''[]'', ''def''),
                   [HttpGet ?q, RecordRateLimit ''58'' ''60'', ResponseJson])"
    by (simp add: request_github_api_def request_get_def retries_arg_def get_args_def
        github_headers_def strip_weak_def eval_nat_numeral)
  have ko: "?ko = (Inl (ConnectionError ''refused''), replicate 3 (HttpGet ?q'))"
    by (simp add: request_github_api_def request_get_def retries_arg_def get_args_def
        github_headers_def eval_nat_numeral)
  have "filter is_get (snd ?ko) =
        replicate (gets (snd ?ko))
          (HttpGet (get_args ?amb' ''https://api.github.com/x''
                      (Some (github_headers ?amb' ''W/abc'')) None))"
    using request_github_api_etag [of ?amb' "''W/abc''" ?down ?loads
        "''https://api.github.com/x''" None None]
    by blast
  then have "filter is_get (snd ?ko) = replicate (gets (snd ?ko)) (HttpGet ?q')"
    by (simp add: get_args_def github_headers_def)
  with ok ko show ?thesis by simp
qed

text \<open>
  C2 as stated fails for the caller-supplied etag: called with the etag \<^verbatim>\<open>W/abc\<close>, the
  function sends \<^verbatim>\<open>If-None-Match: W/abc\<close>, prefix included.
\<close>

theorem request_github_api_etag_counterexample:
  "snd (request_github_api
     \<lparr>DEBUG_REQUEST_GET = False, DEBUG_SHOW_RATE_LIMIT = False, PROXIES = None,
      github_api_token = None\<rparr>
     (\<lambda>i req. Responds \<lparr>status_code = 304,
        headers = [''ETag'' \<mapsto> ''W/abc'', ''X-RateLimit-Remaining'' \<mapsto> ''59'',
                   ''X-RateLimit-Limit'' \<mapsto> ''60''],
        content = []\<rparr>)
     (\<lambda>body. Inl JSONDecodeError :: exn + string option)
     ''https://api.github.com/x'' None ''W/abc'' None)
   = [HttpGet \<lparr>req_url = ''https://api.github.com/x'', req_params = None, req_proxies = None,
               req_headers = Some [(''If-None-Match'', ''W/abc'')]\<rparr>,
      RecordRateLimit ''59'' ''60'']"
  by (simp add: request_github_api_def request_get_def retries_arg_def get_args_def
      github_headers_def eval_nat_numeral)

text \<open>
  C3 (amended). When \<^verbatim>\<open>request_get\<close> has returned a response that carries the ETag header
  and both rate-limit headers, their two values are reported to
  \<^verbatim>\<open>reporter.record_rate_limit\<close> exactly once, whatever the status code and whether the call
  then returns or raises. A response without an ETag header fails before anything is
  reported.
\<close>

theorem request_github_api_rate_limit:
  assumes got: "request_get amb net url (Some (github_headers amb etag)) params
                  (Some (retries_arg retries)) = (Inr (Some r), evs)"
    and out: "request_github_api amb net json_loads url params etag retries = (res, evs')"
  shows "(headers r ''ETag'' = None \<longrightarrow> filter is_report evs' = []) \<and>
         (\<forall>new_etag remaining limit.
            headers r ''ETag'' = Some new_etag \<and>
            headers r ''X-RateLimit-Remaining'' = Some remaining \<and>
            headers r ''X-RateLimit-Limit'' = Some limit \<longrightarrow>
            filter is_report evs' = [RecordRateLimit remaining limit])"
proof -
  from request_get_events [OF got] have no: "filter is_report evs = []" by simp
  have a: "filter is_report evs' = []" if "headers r ''ETag'' = None"
    using api_no_etag [OF got that, of json_loads] out no by auto
  have b: "filter is_report evs' = [RecordRateLimit remaining limit]"
    if "headers r ''ETag'' = Some new_etag"
      "headers r ''X-RateLimit-Remaining'' = Some remaining"
      "headers r ''X-RateLimit-Limit'' = Some limit" for new_etag remaining limit
    using api_with_headers [OF got that, of json_loads] out no
    by (auto simp: Let_def split: if_splits sum.splits)
  from a b show ?thesis by blast
qed

text \<open>A 500 response with the three headers: the call raises, and has reported before.\<close>

theorem request_github_api_rate_limit_witness:
  "filter is_report (snd (request_github_api
     \<lparr>DEBUG_REQUEST_GET = False, DEBUG_SHOW_RATE_LIMIT = True, PROXIES = None,
      github_api_token = None\<rparr>
     (\<lambda>i req. Responds \<lparr>status_code = 500,
        headers = [''ETag'' \<mapsto> ''abc'', ''X-RateLimit-Remaining'' \<mapsto> ''0'',
                   ''X-RateLimit-Limit'' \<mapsto> ''60''],
        content = ''oops''\<rparr>)
     (\<lambda>body. Inl JSONDecodeError :: exn + string option)
     ''https://api.github.com/x'' None [] None))
   = [RecordRateLimit ''0'' ''60'']"
proof -
  let ?amb = "\<lparr>DEBUG_REQUEST_GET = False, DEBUG_SHOW_RATE_LIMIT = True, PROXIES = None,
      github_api_token = None\<rparr>"
  let ?hs = "[''ETag'' \<mapsto> ''abc'', ''X-RateLimit-Remaining'' \<mapsto> ''0'',
                   ''X-RateLimit-Limit'' \<mapsto> ''60'']"
  let ?r = "\<lparr>status_code = 500, headers = ?hs, content = ''oops''\<rparr>"
  let ?net = "\<lambda>(i::nat) (req::request). Responds ?r"
  let ?loads = "\<lambda>body::string. Inl JSONDecodeError :: exn + string option"
  let ?q = "\<lparr>req_url = ''https://api.github.com/x'', req_params = None, req_proxies = None,
                req_headers = Some [(''If-None-Match'', [])]\<rparr>"
  let ?out = "request_github_api ?amb ?net ?loads ''https://api.github.com/x'' None [] None"
  have got: "request_get ?amb ?net ''https://api.github.com/x''
               (Some (github_headers ?amb [])) None (Some (retries_arg None))
             = (Inr (Some ?r), [HttpGet ?q])"
    by (simp add: request_get_def retries_arg_def get_args_def github_headers_def
        eval_nat_numeral)
  have out: "?out = (fst ?out, snd ?out)" by simp
  from request_github_api_rate_limit [OF got out]
  show ?thesis by simp
qed

text \<open>
  C3 as stated fails: for a response that has both rate-limit headers and no ETag header,
  nothing is reported.
\<close>

theorem request_github_api_rate_limit_counterexample:
  "filter is_report (snd (request_github_api
     \<lparr>DEBUG_REQUEST_GET = False, DEBUG_SHOW_RATE_LIMIT = False, PROXIES = None,
      github_api_token = None\<rparr>
     (\<lambda>i req. Responds \<lparr>status_code = 200,
        headers = [''X-RateLimit-Remaining'' \<mapsto> ''59'', ''X-RateLimit-Limit'' \<mapsto> ''60''],
        content = ''[]''\<rparr>)
     (\<lambda>body. Inr (Some body))
     ''https://api.github.com/x'' None [] None))
   = []"
  by (simp add: request_github_api_def request_get_def retries_arg_def get_args_def
      github_headers_def eval_nat_numeral)

text \<open>
  C8. When the response has no ETag header, the call raises (a \<^verbatim>\<open>KeyError\<close>) whatever the
  status code is; the last thing it does before is to log the URL, the params, the status
  code and the body; and it makes no further \<^verbatim>\<open>requests.get\<close> call.
\<close>

theorem request_github_api_missing_etag:
  assumes got: "request_get amb net url (Some (github_headers amb etag)) params
                  (Some (retries_arg retries)) = (Inr (Some r), evs)"
    and etag: "headers r ''ETag'' = None"
  shows "request_github_api amb net json_loads url params etag retries =
           (Inl KeyError, evs @ [LogErrorNoETag url params (status_code r) (content r)]) \<and>
         gets (snd (request_github_api amb net json_loads url params etag retries)) = gets evs"
  by (simp add: api_no_etag [OF got etag])

text \<open>A 200 response with both rate-limit headers and no ETag header.\<close>

theorem request_github_api_missing_etag_witness:
  "request_github_api
     \<lparr>DEBUG_REQUEST_GET = False, DEBUG_SHOW_RATE_LIMIT = False, PROXIES = None,
      github_api_token = None\<rparr>
     (\<lambda>i req. Responds \<lparr>status_code = 200,
        headers = [''X-RateLimit-Remaining'' \<mapsto> ''59'', ''X-RateLimit-Limit'' \<mapsto> ''60''],
        content = ''[]''\<rparr>)
     (\<lambda>body. Inr (Some body))
     ''https://api.github.com/x'' (Some [(''page'', ''2'')]) ''abc'' (Some 5)
   = (Inl KeyError,
      [HttpGet \<lparr>req_url = ''https://api.github.com/x'', req_params = Some [(''page'', ''2'')],
                req_proxies = None, req_headers = Some [(''If-None-Match'', ''abc'')]\<rparr>,
       LogErrorNoETag ''https://api.github.com/x'' (Some [(''page'', ''2'')]) 200 ''[]''])"
proof -
  let ?amb = "\<lparr>DEBUG_REQUEST_GET = False, DEBUG_SHOW_RATE_LIMIT = False, PROXIES = None,
      github_api_token = None\<rparr>"
  let ?hs = "[''X-RateLimit-Remaining'' \<mapsto> ''59'', ''X-RateLimit-Limit'' \<mapsto> ''60'']"
  let ?r = "\<lparr>status_code = 200, headers = ?hs, content = ''[]''\<rparr>"
  let ?net = "\<lambda>(i::nat) (req::request). Responds ?r"
  let ?q = "\<lparr>req_url = ''https://api.github.com/x'', req_params = Some [(''page'', ''2'')],
                req_proxies = None, req_headers = Some [(''If-None-Match'', ''abc'')]\<rparr>"
  have got: "request_get ?amb ?net ''https://api.github.com/x''
               (Some (github_headers ?amb ''abc'')) (Some [(''page'', ''2'')])
               (Some (retries_arg (Some 5)))
             = (Inr (Some ?r), [HttpGet ?q])"
    by (simp add: request_get_def retries_arg_def get_args_def github_headers_def
        eval_nat_numeral)
  have etag: "headers ?r ''ETag'' = None" by simp
  from request_github_api_missing_etag [OF got etag, of "\<lambda>body. Inr (Some body)"]
  show ?thesis by simp
qed

text \<open>
  C10. When the response carries an ETag header and lacks \<^verbatim>\<open>X-RateLimit-Remaining\<close> or
  \<^verbatim>\<open>X-RateLimit-Limit\<close>, the call raises \<^verbatim>\<open>KeyError\<close> whatever the status code is, also
  200 and 304, and does nothing else after the response: no report, no log, no JSON
  decoding.
\<close>

theorem request_github_api_missing_rate_limit:
  assumes got: "request_get amb net url (Some (github_headers amb etag)) params
                  (Some (retries_arg retries)) = (Inr (Some r), evs)"
    and etag: "headers r ''ETag'' = Some new_etag"
    and missing: "headers r ''X-RateLimit-Remaining'' = None \<or>
                  headers r ''X-RateLimit-Limit'' = None"
  shows "request_github_api amb net json_loads url params etag retries = (Inl KeyError, evs)"
  by (rule api_no_rate_limit [OF got etag missing])

text \<open>A 200 response with an ETag header and no \<^verbatim>\<open>X-RateLimit-Limit\<close> header.\<close>

theorem request_github_api_missing_rate_limit_witness:
  "request_github_api
     \<lparr>DEBUG_REQUEST_GET = False, DEBUG_SHOW_RATE_LIMIT = False, PROXIES = None,
      github_api_token = None\<rparr>
     (\<lambda>i req. Responds \<lparr>status_code = 200,
        headers = [''ETag'' \<mapsto> ''abc'', ''X-RateLimit-Remaining'' \<mapsto> ''59''],
        content = ''[]''\<rparr>)
     (\<lambda>body. Inr (Some body))
     ''https://api.github.com/x'' None [] None
   = (Inl KeyError,
      [HttpGet \<lparr>req_url = ''https://api.github.com/x'', req_params = None,
                req_proxies = None, req_headers = Some [(''If-None-Match'', [])]\<rparr>])"
proof -
  let ?amb = "\<lparr>DEBUG_REQUEST_GET = False, DEBUG_SHOW_RATE_LIMIT = False, PROXIES = None,
      github_api_token = None\<rparr>"
  let ?hs = "[''ETag'' \<mapsto> ''abc'', ''X-RateLimit-Remaining'' \<mapsto> ''59'']"
  let ?r = "\<lparr>status_code = 200, headers = ?hs, content = ''[]''\<rparr>"
  let ?net = "\<lambda>(i::nat) (req::request). Responds ?r"
  let ?q = "\<lparr>req_url = ''https://api.github.com/x'', req_params = None,
                req_proxies = None, req_headers = Some [(''If-None-Match'', [])]\<rparr>"
  have got: "request_get ?amb ?net ''https://api.github.com/x''
               (Some (github_headers ?amb [])) None (Some (retries_arg None))
             = (Inr (Some ?r), [HttpGet ?q])"
    by (simp add: request_get_def retries_arg_def get_args_def github_headers_def
        eval_nat_numeral)
  have etag: "headers ?r ''ETag'' = Some ''abc''" by simp
  have missing: "headers ?r ''X-RateLimit-Remaining'' = None \<or>
                 headers ?r ''X-RateLimit-Limit'' = None" by simp
  from request_github_api_missing_rate_limit [OF got etag missing, of "\<lambda>body. Inr (Some body)"]
  show ?thesis by simp
qed

section \<open>Properties of \<^verbatim>\<open>rewrite_markdown\<close>\<close>

text \<open>The model of the pattern test agrees with the meaning of \<^verbatim>\<open>^\w+://\<close>.\<close>

lemma colon_not_word: "\<not> word_char CHR '':''"
  by (simp add: word_char_def)

lemma pattern_match_iff: "pattern_match url = scheme_qualified url"
proof
  assume m: "pattern_match url"
  let ?w = "takeWhile word_char url" and ?d = "dropWhile word_char url"
  from m have "?w \<noteq> []" and t: "take 3 ?d = ''://''"
    by (simp_all add: pattern_match_def)
  moreover have "list_all word_char ?w"
    by (simp add: list_all_iff) (meson set_takeWhileD)
  moreover have "url = ?w @ ''://'' @ drop 3 ?d"
  proof -
    have "?d = take 3 ?d @ drop 3 ?d" by simp
    with t have "?d = ''://'' @ drop 3 ?d" by metis
    then have "?w @ ?d = ?w @ ''://'' @ drop 3 ?d" by simp
    then show ?thesis by simp
  qed
  ultimately show "scheme_qualified url"
    unfolding scheme_qualified_def by blast
next
  assume "scheme_qualified url"
  then obtain w rest where w: "w \<noteq> []" "list_all word_char w" and url: "url = w @ ''://'' @ rest"
    unfolding scheme_qualified_def by blast
  from w(2) have all: "\<forall>x\<in>set w. word_char x" by (simp add: list_all_iff)
  have tw: "takeWhile word_char url = w"
    unfolding url using all colon_not_word by (simp add: takeWhile_tail)
  have dw: "dropWhile word_char url = ''://'' @ rest"
    unfolding url using all colon_not_word by (simp add: dropWhile_append3)
  from tw dw w(1) show "pattern_match url"
    by (simp add: pattern_match_def)
qed

lemma pattern_match_append: "pattern_match b \<Longrightarrow> pattern_match (b @ s)"
  unfolding pattern_match_iff scheme_qualified_def
  by (metis append.assoc)

lemma starts_hash: "(take (Suc 0) url = ''#'') = (\<exists>rest. url = ''#'' @ rest)"
  by (cases url) auto

lemma rewrite_url_spec: "fst (rewrite_url repos_url url base) = spec_rewrite_url base url"
  by (auto simp: rewrite_url_def spec_rewrite_url_def classify_def pattern_match_iff
      starts_hash Let_def)

lemma rewrite_children_spec:
  fixes n :: "'a node" and ns :: "'a node list"
  shows "fst (rewrite_children repos_url raw_url n) = spec_rewrite repos_url raw_url n"
    and "fst (rewrite_each repos_url raw_url ns) = map (spec_rewrite repos_url raw_url) ns"
proof (induction repos_url raw_url n and repos_url raw_url ns
    rule: rewrite_children_rewrite_each.induct)
  case (1 repos_url raw_url src a children)
  from "1" [OF refl prod.collapse] show ?case
    using rewrite_url_spec [of repos_url src raw_url]
    by (simp add: split_beta)
next
  case (2 repos_url raw_url target a children)
  from "2" [OF refl prod.collapse] show ?case
    using rewrite_url_spec [of repos_url target repos_url]
    by (simp add: split_beta)
next
  case (3 repos_url raw_url a children)
  then show ?case by (simp add: split_beta)
next
  case (4 repos_url raw_url)
  then show ?case by simp
next
  case (5 repos_url raw_url child rest)
  from "5.IH" (1) "5.IH" (2) [OF refl prod.collapse] show ?case
    by (simp add: split_beta)
qed

lemma spec_rewrite_url_idem:
  assumes "pattern_match base"
  shows "spec_rewrite_url base (spec_rewrite_url base url) = spec_rewrite_url base url"
proof (cases "classify url")
  case RelativePath
  from assms have "scheme_qualified (base @ ''/'' @ url)"
    using pattern_match_append pattern_match_iff by blast
  with RelativePath show ?thesis
    by (simp add: spec_rewrite_url_def classify_def)
qed (simp_all add: spec_rewrite_url_def)

lemma spec_rewrite_idem:
  assumes "pattern_match repoBase" "pattern_match rawBase"
  shows "spec_rewrite repoBase rawBase (spec_rewrite repoBase rawBase n) =
         spec_rewrite repoBase rawBase n"
  using assms by (induction n) (simp_all add: spec_rewrite_url_idem)


text \<open>
  \<open>rstrip_slash\<close> removes trailing slashes and nothing else, and leaves none at the end.
\<close>

lemma rstrip_slash_spec:
  "\<exists>n. s = rstrip_slash s @ replicate n CHR ''/''"
  "rstrip_slash s = [] \<or> last (rstrip_slash s) \<noteq> CHR ''/''"
proof -
  let ?P = "\<lambda>c. c = CHR ''/''"
  let ?t = "takeWhile ?P (rev s)" and ?d = "dropWhile ?P (rev s)"
  have "rev s = ?t @ ?d" by simp
  then have "s = rev (?t @ ?d)" by (metis rev_rev_ident)
  then have split: "s = rev ?d @ rev ?t" by (simp only: rev_append)
  have "\<forall>y\<in>set (rev ?t). y = CHR ''/''"
    by (auto dest: set_takeWhileD)
  then have "replicate (length (rev ?t)) CHR ''/'' = rev ?t"
    by (rule replicate_length_same)
  with split have "s = rstrip_slash s @ replicate (length (rev ?t)) CHR ''/''"
    by (simp add: rstrip_slash_def)
  then show "\<exists>n. s = rstrip_slash s @ replicate n CHR ''/''" ..
  show "rstrip_slash s = [] \<or> last (rstrip_slash s) \<noteq> CHR ''/''"
  proof (cases "?d = []")
    case True
    then show ?thesis by (simp add: rstrip_slash_def)
  next
    case False
    then have "\<not> ?P (hd ?d)" by (rule hd_dropWhile)
    with False show ?thesis by (simp add: rstrip_slash_def last_rev)
  qed
qed

text \<open>
  The tree of \<^verbatim>\<open>foo ![a](1.png)\<close> and \<^verbatim>\<open>[b](2.md)\<close>, two paragraphs, with the base URLs
  of the module's own example.
\<close>

lemma rewrite_children_example:
  "rewrite_children ''https://example.com/repos'' ''https://example.com/raw''
     (Other ''doc''
        [Other ''p'' [Other ''foo '' [], Image ''1.png'' ''a'' [Other ''a'' []]],
         Other ''p'' [Link ''2.md'' ''b'' [Other ''b'' []]]])
   = (Other ''doc''
        [Other ''p'' [Other ''foo '' [],
                      Image ''https://example.com/raw/1.png'' ''a'' [Other ''a'' []]],
         Other ''p'' [Link ''https://example.com/repos/2.md'' ''b'' [Other ''b'' []]]],
      [LogInfoRewritten ''https://example.com/repos'' ''1.png''
         ''https://example.com/raw/1.png'',
       LogInfoRewritten ''https://example.com/repos'' ''2.md''
         ''https://example.com/repos/2.md''])"
  by (simp add: rewrite_url_def pattern_match_def word_char_def Let_def)



text \<open>
  C7 (amended). For base URLs that still match \<^verbatim>\<open>^\w+://\<close> after their trailing slashes
  are stripped, and for every content whose rewritten output, once its line endings are
  normalised by the second call, is parsed by the Markdown library back to the tree that
  output was rendered from, rewriting the output again with the same base URLs returns it
  unchanged.
\<close>

theorem rewrite_markdown_idempotent:
  assumes repos: "pattern_match (rstrip_slash repos_url)"
    and raw: "pattern_match (rstrip_slash raw_url)"
    and once: "rewrite_markdown parse render content_md repos_url raw_url = (Inr out, evs)"
    and reparse: "\<exists>doc. parse (replace_crlf content_md) = Inr doc \<and>
                 parse (replace_crlf out) =
                   Inr (fst (rewrite_children (rstrip_slash repos_url) (rstrip_slash raw_url) doc))"
  shows "fst (rewrite_markdown parse render out repos_url raw_url) = Inr out"
proof -
  let ?R = "rstrip_slash repos_url" and ?W = "rstrip_slash raw_url"
  from reparse obtain doc where doc: "parse (replace_crlf content_md) = Inr doc"
    and doc': "parse (replace_crlf out) = Inr (spec_rewrite ?R ?W doc)"
    by (auto simp: rewrite_children_spec)
  from once doc have out: "render (spec_rewrite ?R ?W doc) = Inr out"
    by (simp add: rewrite_markdown_def Let_def split_beta rewrite_children_spec [symmetric])
  have "fst (rewrite_markdown parse render out repos_url raw_url) =
        render (spec_rewrite ?R ?W (spec_rewrite ?R ?W doc))"
    by (simp add: rewrite_markdown_def Let_def split_beta doc' rewrite_children_spec)
  also have "\<dots> = render (spec_rewrite ?R ?W doc)"
    by (simp add: spec_rewrite_idem [OF repos raw])
  finally show ?thesis using out by simp
qed

text \<open>
  A parser and a renderer given on the two documents that occur: \<^verbatim>\<open>![a](1.png)\<close> and
  its rewritten form.
\<close>

theorem rewrite_markdown_idempotent_witness:
  "fst (rewrite_markdown
     (\<lambda>s. if s = ''![a](1.png)'' then Inr (Other ''doc'' [Image ''1.png'' ''a'' []])
          else if s = ''![a](https://example.com/raw/1.png)''
          then Inr (Other ''doc'' [Image ''https://example.com/raw/1.png'' ''a'' []])
          else Inl (OtherException ''parse''))
     (\<lambda>n. if n = Other ''doc'' [Image ''https://example.com/raw/1.png'' ''a'' []]
          then Inr ''![a](https://example.com/raw/1.png)''
          else Inl (OtherException ''render''))
     ''![a](https://example.com/raw/1.png)''
     ''https://example.com/repos/'' ''https://example.com/raw/'')
   = Inr ''![a](https://example.com/raw/1.png)''"
proof -
  let ?T0 = "Other ''doc'' [Image ''1.png'' ''a'' []]"
  let ?T1 = "Other ''doc'' [Image ''https://example.com/raw/1.png'' ''a'' []]"
  let ?c0 = "''![a](1.png)''" and ?c1 = "''![a](https://example.com/raw/1.png)''"
  let ?parse = "\<lambda>s. if s = ?c0 then Inr ?T0 else if s = ?c1 then Inr ?T1
                     else Inl (OtherException ''parse'')"
  let ?render = "\<lambda>n. if n = ?T1 then Inr ?c1 else Inl (OtherException ''render'')"
  have R: "rstrip_slash ''https://example.com/repos/'' = ''https://example.com/repos''"
    and W: "rstrip_slash ''https://example.com/raw/'' = ''https://example.com/raw''"
    by (simp_all add: rstrip_slash_def)
  have once: "rewrite_markdown ?parse ?render ?c0
                ''https://example.com/repos/'' ''https://example.com/raw/''
              = (Inr ?c1, [LogInfoRewritten ''https://example.com/repos'' ''1.png''
                             ''https://example.com/raw/1.png''])"
    by (simp add: rewrite_markdown_def R W rewrite_url_def pattern_match_def word_char_def
        Let_def)
  have repos: "pattern_match (rstrip_slash ''https://example.com/repos/'')"
    and raw: "pattern_match (rstrip_slash ''https://example.com/raw/'')"
    by (simp_all add: R W pattern_match_def word_char_def)
  have reparse: "\<exists>doc. ?parse (replace_crlf ?c0) = Inr doc \<and>
                 ?parse (replace_crlf ?c1) =
                   Inr (fst (rewrite_children (rstrip_slash ''https://example.com/repos/'')
                          (rstrip_slash ''https://example.com/raw/'') doc))"
    by (simp add: R W rewrite_url_def pattern_match_def word_char_def Let_def)
  from rewrite_markdown_idempotent [OF repos raw once reparse] show ?thesis .
qed

text \<open>
  C7 as stated fails in two ways, shown on texts, with the parser and the renderer given
  on the documents that occur. With base URLs without a scheme, such as the site-relative
  \<^verbatim>\<open>/repos\<close> and \<^verbatim>\<open>/raw\<close>, the content \<^verbatim>\<open>![a](1.png)\<close> is rewritten to
  \<^verbatim>\<open>![a](/raw/1.png)\<close>, whose URL is a relative path again, and rewriting that output
  gives \<^verbatim>\<open>![a](/raw//raw/1.png)\<close>. With base URLs that have a scheme, the content
  \<^verbatim>\<open>a\r\r\nb\<close> reaches the parser as \<^verbatim>\<open>a\r\nb\<close> (line 142 replaces in one pass) and
  is rendered as \<^verbatim>\<open>a\r\nb\n\<close>; the second call normalises this to \<^verbatim>\<open>a\nb\n\<close>, parses
  another tree and returns \<^verbatim>\<open>a\nb\n\<close>.
\<close>

theorem rewrite_markdown_idempotent_counterexample:
  "fst (rewrite_markdown
     (\<lambda>s. if s = ''![a](1.png)''
          then Inr (Other ''Document'' [Other ''Paragraph'' [Image ''1.png'' ''a'' []]])
          else if s = ''![a](/raw/1.png)'' @ [CHR 0x0A]
          then Inr (Other ''Document'' [Other ''Paragraph'' [Image ''/raw/1.png'' ''a'' []]])
          else Inl (OtherException ''not tabulated''))
     (\<lambda>d. if d = Other ''Document'' [Other ''Paragraph'' [Image ''/raw/1.png'' ''a'' []]]
          then Inr (''![a](/raw/1.png)'' @ [CHR 0x0A])
          else if d = Other ''Document'' [Other ''Paragraph''
                        [Image ''/raw//raw/1.png'' ''a'' []]]
          then Inr (''![a](/raw//raw/1.png)'' @ [CHR 0x0A])
          else Inl (OtherException ''not tabulated''))
     ''![a](1.png)'' ''/repos'' ''/raw'')
   = Inr (''![a](/raw/1.png)'' @ [CHR 0x0A]) \<and>
   fst (rewrite_markdown
     (\<lambda>s. if s = ''![a](1.png)''
          then Inr (Other ''Document'' [Other ''Paragraph'' [Image ''1.png'' ''a'' []]])
          else if s = ''![a](/raw/1.png)'' @ [CHR 0x0A]
          then Inr (Other ''Document'' [Other ''Paragraph'' [Image ''/raw/1.png'' ''a'' []]])
          else Inl (OtherException ''not tabulated''))
     (\<lambda>d. if d = Other ''Document'' [Other ''Paragraph'' [Image ''/raw/1.png'' ''a'' []]]
          then Inr (''![a](/raw/1.png)'' @ [CHR 0x0A])
          else if d = Other ''Document'' [Other ''Paragraph''
                        [Image ''/raw//raw/1.png'' ''a'' []]]
          then Inr (''![a](/raw//raw/1.png)'' @ [CHR 0x0A])
          else Inl (OtherException ''not tabulated''))
     (''![a](/raw/1.png)'' @ [CHR 0x0A]) ''/repos'' ''/raw'')
   = Inr (''![a](/raw//raw/1.png)'' @ [CHR 0x0A]) \<and>
   fst (rewrite_markdown
     (\<lambda>s. if s = ''a'' @ [CHR 0x0D, CHR 0x0A] @ ''b''
          then Inr (Other ''Document'' [Other ''Paragraph''
                 [Other (''a'' @ [CHR 0x0D]) [], Other ''LineBreak'' [], Other ''b'' []]])
          else if s = ''a'' @ [CHR 0x0A] @ ''b'' @ [CHR 0x0A]
          then Inr (Other ''Document'' [Other ''Paragraph''
                 [Other ''a'' [], Other ''LineBreak'' [], Other ''b'' []]])
          else Inl (OtherException ''not tabulated''))
     (\<lambda>d. if d = Other ''Document'' [Other ''Paragraph''
                 [Other (''a'' @ [CHR 0x0D]) [], Other ''LineBreak'' [], Other ''b'' []]]
          then Inr (''a'' @ [CHR 0x0D, CHR 0x0A] @ ''b'' @ [CHR 0x0A])
          else if d = Other ''Document'' [Other ''Paragraph''
                 [Other ''a'' [], Other ''LineBreak'' [], Other ''b'' []]]
          then Inr (''a'' @ [CHR 0x0A] @ ''b'' @ [CHR 0x0A])
          else Inl (OtherException ''not tabulated''))
     (''a'' @ [CHR 0x0D, CHR 0x0D, CHR 0x0A] @ ''b'')
     ''https://example.com/repos'' ''https://example.com/raw'')
   = Inr (''a'' @ [CHR 0x0D, CHR 0x0A] @ ''b'' @ [CHR 0x0A]) \<and>
   fst (rewrite_markdown
     (\<lambda>s. if s = ''a'' @ [CHR 0x0D, CHR 0x0A] @ ''b''
          then Inr (Other ''Document'' [Other ''Paragraph''
                 [Other (''a'' @ [CHR 0x0D]) [], Other ''LineBreak'' [], Other ''b'' []]])
          else if s = ''a'' @ [CHR 0x0A] @ ''b'' @ [CHR 0x0A]
          then Inr (Other ''Document'' [Other ''Paragraph''
                 [Other ''a'' [], Other ''LineBreak'' [], Other ''b'' []]])
          else Inl (OtherException ''not tabulated''))
     (\<lambda>d. if d = Other ''Document'' [Other ''Paragraph''
                 [Other (''a'' @ [CHR 0x0D]) [], Other ''LineBreak'' [], Other ''b'' []]]
          then Inr (''a'' @ [CHR 0x0D, CHR 0x0A] @ ''b'' @ [CHR 0x0A])
          else if d = Other ''Document'' [Other ''Paragraph''
                 [Other ''a'' [], Other ''LineBreak'' [], Other ''b'' []]]
          then Inr (''a'' @ [CHR 0x0A] @ ''b'' @ [CHR 0x0A])
          else Inl (OtherException ''not tabulated''))
     (''a'' @ [CHR 0x0D, CHR 0x0A] @ ''b'' @ [CHR 0x0A])
     ''https://example.com/repos'' ''https://example.com/raw'')
   = Inr (''a'' @ [CHR 0x0A] @ ''b'' @ [CHR 0x0A])"
  by (simp add: rewrite_markdown_def rstrip_slash_def rewrite_url_def pattern_match_def
      word_char_def Let_def)

end
